theory Spec2Isabelle
  imports Main
begin

section \<open>JavaScript values\<close>

text \<open>
  The program is \<^verbatim>\<open>src/test-parser.js\<close>: three functions, \<^verbatim>\<open>getDomFragment\<close>,
  \<^verbatim>\<open>itter\<close> and \<^verbatim>\<open>testParser\<close>, written against Mocha's globals \<^verbatim>\<open>describe\<close>,
  \<^verbatim>\<open>before\<close>, \<^verbatim>\<open>beforeEach\<close> and \<^verbatim>\<open>it\<close>.

  The program is dynamically typed: every argument can be any value, and several of its
  branches test the shape of a value at run time. Values are therefore one datatype.
  An object is the list of its own properties (the first binding of a name is the one read);
  a function is an opaque reference, interpreted by an environment; a promise is
  represented by the way it settles; \<open>VTypeError\<close> is the error object the runtime throws
  on a property read of \<^verbatim>\<open>null\<close>/\<^verbatim>\<open>undefined\<close> or a call of a non-function.
  Numbers are restricted to integers.
\<close>

datatype 'a settle = Fulfilled 'a | Rejected 'a | Pending

datatype val =
    VUndefined
  | VNull
  | VBool bool
  | VNum int
  | VStr string
  | VFun nat
  | VArr "val list"
  | VObj "(string \<times> val) list"
  | VPromise "val settle"
  | VTypeError

text \<open>The outcome of running a piece of the program: a result, a thrown value, or
  \<open>Unmodelled\<close> where the behaviour of the source depends on a part of the language
  this model leaves out (the numeric conversion of a non-numeric \<^verbatim>\<open>length\<close>, the
  \<^verbatim>\<open>length\<close> of a function, the adoption of a user-written thenable).\<close>

datatype 'a res = Ok 'a | Threw val | Unmodelled

text \<open>An environment gives each function reference its behaviour: called with a
  \<^verbatim>\<open>this\<close> value and an argument list it returns or throws. The callbacks of a node
  are taken to be functions of their inputs: they register nothing themselves and leave
  the nodes as they are.\<close>

type_synonym fenv = "nat \<Rightarrow> val \<Rightarrow> val list \<Rightarrow> val res"

text \<open>What the program does to the outside, in order: the user callbacks it invokes and
  the registrations it makes with the runner. A group holds what its body did. A hook or a
  test is registered as a closure; the event records the variables the closure captures.\<close>

datatype event =
    Called nat val "val list"
  | Group val "event list"
  | BeforeHook val val
  | BeforeEachHook val val val
  | Test val val val val

type_synonym 'a run = "event list \<times> 'a res"

subsection \<open>Primitive operations of the language\<close>

text \<open>Truthiness, as \<^verbatim>\<open>if (x)\<close> and \<^verbatim>\<open>&&\<close> test it.\<close>

fun truthy :: "val \<Rightarrow> bool" where
  "truthy VUndefined = False"
| "truthy VNull = False"
| "truthy (VBool b) = b"
| "truthy (VNum n) = (n \<noteq> 0)"
| "truthy (VStr s) = (s \<noteq> [])"
| "truthy (VFun f) = True"
| "truthy (VArr xs) = True"
| "truthy (VObj kvs) = True"
| "truthy (VPromise p) = True"
| "truthy VTypeError = True"

text \<open>\<^verbatim>\<open>typeof x === 'function'\<close>, \<^verbatim>\<open>Array.isArray(x)\<close>, and the values on which a
  property read throws.\<close>

fun is_function :: "val \<Rightarrow> bool" where
  "is_function (VFun f) = True"
| "is_function v = False"

fun is_array :: "val \<Rightarrow> bool" where
  "is_array (VArr xs) = True"
| "is_array v = False"

fun nullish :: "val \<Rightarrow> bool" where
  "nullish VUndefined = True"
| "nullish VNull = True"
| "nullish v = False"

fun lookup :: "(string \<times> val) list \<Rightarrow> string \<Rightarrow> val" where
  "lookup [] k = VUndefined"
| "lookup ((k', v) # kvs) k = (if k' = k then v else lookup kvs k)"

text \<open>\<open>field v k\<close> is the property read \<^verbatim>\<open>v.k\<close> on a value that is not
  \<^verbatim>\<open>null\<close>/\<^verbatim>\<open>undefined\<close>, for the names the program reads (\<^verbatim>\<open>document\<close>,
  \<^verbatim>\<open>feature\<close>, \<^verbatim>\<open>scenario\<close>, \<^verbatim>\<open>set\<close>, \<^verbatim>\<open>tests\<close>, \<^verbatim>\<open>before\<close>, \<^verbatim>\<open>beforeEach\<close>,
  \<^verbatim>\<open>given\<close>, \<^verbatim>\<open>inherit\<close>, \<^verbatim>\<open>getDomFragment\<close>, \<^verbatim>\<open>getActual\<close>, \<^verbatim>\<open>comparison\<close>):
  none of them is a built-in property of a primitive, an array or a function, so only an
  object can answer anything but \<^verbatim>\<open>undefined\<close>. The reads of \<^verbatim>\<open>length\<close> and of
  \<^verbatim>\<open>then\<close> are modelled apart, by \<open>array_items\<close> and \<open>test_body\<close>.\<close>

fun field :: "val \<Rightarrow> string \<Rightarrow> val" where
  "field (VObj kvs) k = lookup kvs k"
| "field v k = VUndefined"

text \<open>Calling a value: a \<^verbatim>\<open>TypeError\<close> unless it is a function; the call is recorded.\<close>

fun call :: "fenv \<Rightarrow> val \<Rightarrow> val \<Rightarrow> val list \<Rightarrow> val run" where
  "call fenv (VFun f) this args = ([Called f this args], fenv f this args)"
| "call fenv v this args = ([], Threw VTypeError)"

text \<open>Sequencing: the second part runs when the first returned, on its result; a throw
  ends the run with the events made so far.\<close>

fun seq :: "'a run \<Rightarrow> ('a \<Rightarrow> 'b run) \<Rightarrow> 'b run" where
  "seq (es, Ok x) f = (case f x of (es', r) \<Rightarrow> (es @ es', r))"
| "seq (es, Threw e) f = (es, Threw e)"
| "seq (es, Unmodelled) f = (es, Unmodelled)"

definition no_op :: "unit run" where
  "no_op = ([], Ok ())"

definition throw :: "val \<Rightarrow> 'a run" where
  "throw e = ([], Threw e)"

text \<open>\<^verbatim>\<open>tests.forEach(f)\<close>: \<open>f\<close> on every element in order, stopping at a throw.\<close>

fun forEach :: "('a \<Rightarrow> unit run) \<Rightarrow> 'a list \<Rightarrow> unit run" where
  "forEach f [] = no_op"
| "forEach f (x # xs) = seq (f x) (\<lambda>_. forEach f xs)"

text \<open>\<^verbatim>\<open>for (let i = 0; i < a.length; i++) f(i, a[i])\<close> over the elements of \<open>a\<close>,
  counting from \<open>i\<close>.\<close>

fun for_index :: "(nat \<Rightarrow> 'a \<Rightarrow> unit run) \<Rightarrow> nat \<Rightarrow> 'a list \<Rightarrow> unit run" where
  "for_index f i [] = no_op"
| "for_index f i (x # xs) = seq (f i x) (\<lambda>_. for_index f (Suc i) xs)"

text \<open>Decimal digits of an index, for the template string \<^verbatim>\<open>`Set index: ${i}`\<close>.\<close>

fun digit :: "nat \<Rightarrow> char" where
  "digit n = (''0123456789'' ! n)"

fun show_nat :: "nat \<Rightarrow> string" where
  "show_nat n = (if n < 10 then [digit n] else show_nat (n div 10) @ [digit (n mod 10)])"

declare show_nat.simps [simp del]

definition set_index :: "nat \<Rightarrow> val" where
  "set_index i = VStr (''Set index: '' @ show_nat i)"

text \<open>What the loop \<^verbatim>\<open>for (let i = 0; i < a.length; i++) ... a[i] ...\<close> visits, for any
  value \<open>a\<close>: reading \<^verbatim>\<open>length\<close> throws on \<^verbatim>\<open>null\<close>/\<^verbatim>\<open>undefined\<close>; an array gives its
  elements and a string its characters; a value with no \<^verbatim>\<open>length\<close> gives nothing, as
  \<^verbatim>\<open>0 < undefined\<close> is false; an object with a numeric \<^verbatim>\<open>length\<close> is read at the keys
  \<^verbatim>\<open>0\<close>, \<^verbatim>\<open>1\<close>, ...\<close>

fun array_items :: "val \<Rightarrow> val list run" where
  "array_items VUndefined = throw VTypeError"
| "array_items VNull = throw VTypeError"
| "array_items (VArr xs) = ([], Ok xs)"
| "array_items (VStr s) = ([], Ok (map (\<lambda>c. VStr [c]) s))"
| "array_items (VObj kvs) =
     (case lookup kvs ''length'' of
        VUndefined \<Rightarrow> ([], Ok [])
      | VNull \<Rightarrow> ([], Ok [])
      | VBool b \<Rightarrow> ([], Ok (if b then [lookup kvs ''0''] else []))
      | VNum n \<Rightarrow> ([], Ok (map (\<lambda>i. lookup kvs (show_nat i)) [0 ..< nat n]))
      | _ \<Rightarrow> ([], Unmodelled))"
| "array_items (VFun f) = ([], Unmodelled)"
| "array_items v = ([], Ok [])"

text \<open>The runner, as the program uses it: \<^verbatim>\<open>describe(name, body)\<close> opens a group and
  runs \<open>body\<close> at once; a throw inside the body leaves through \<^verbatim>\<open>describe\<close>.\<close>

fun describe :: "val \<Rightarrow> unit run \<Rightarrow> unit run" where
  "describe name (es, r) = ([Group name es], r)"

section \<open>The program\<close>

text \<open>
\<^verbatim>\<open>
const getDomFragment = (test, docFragment) => {
  if (test && test.getDomFragment && typeof test.getDomFragment === 'function')
    return test.getDomFragment(docFragment);
  return docFragment;
};
\<close>\<close>

definition getDomFragment :: "fenv \<Rightarrow> val \<Rightarrow> val \<Rightarrow> val run" where
  "getDomFragment fenv test docFragment =
     (if truthy test \<and> truthy (field test ''getDomFragment'')
         \<and> is_function (field test ''getDomFragment'')
      then call fenv (field test ''getDomFragment'') test [docFragment]
      else ([], Ok docFragment))"

text \<open>
\<^verbatim>\<open>
const itter = (test, docFragment, wndw) => {
  it(test.scenario, () =>
    test.getActual(docFragment, wndw).then(test.comparison)
  );
};
\<close>
  \<open>itter\<close> registers the test; \<open>test_body\<close> is the arrow function it registers, which the
  runner calls later.\<close>

definition itter :: "val \<Rightarrow> val \<Rightarrow> val \<Rightarrow> unit run" where
  "itter test docFragment wndw =
     (if nullish test then throw VTypeError
      else ([Test (field test ''scenario'') test docFragment wndw], Ok ()))"

text \<open>\<^verbatim>\<open>p.then(f)\<close> on a promise, read at the time everything has settled: \<open>f\<close> is called
  on the value of a fulfilled \<open>p\<close> (with \<^verbatim>\<open>this\<close> undefined) and never otherwise; the
  promise returned takes the outcome of \<open>f\<close>.\<close>

fun resolve :: "val \<Rightarrow> val res" where
  "resolve (VPromise q) = Ok (VPromise q)"
| "resolve (VObj kvs) =
     (if is_function (lookup kvs ''then'') then Unmodelled
      else Ok (VPromise (Fulfilled (VObj kvs))))"
| "resolve v = Ok (VPromise (Fulfilled v))"

fun promise_then :: "fenv \<Rightarrow> val settle \<Rightarrow> val \<Rightarrow> val run" where
  "promise_then fenv (Fulfilled v) f =
     (if is_function f
      then (case call fenv f VUndefined [v] of
              (es, Ok r) \<Rightarrow> (es, resolve r)
            | (es, Threw e) \<Rightarrow> (es, Ok (VPromise (Rejected e)))
            | (es, Unmodelled) \<Rightarrow> (es, Unmodelled))
      else ([], Ok (VPromise (Fulfilled v))))"
| "promise_then fenv (Rejected e) f = ([], Ok (VPromise (Rejected e)))"
| "promise_then fenv Pending f = ([], Ok (VPromise Pending))"

text \<open>The method call \<^verbatim>\<open>actual.then(f)\<close> on any value.\<close>

fun call_then :: "fenv \<Rightarrow> val \<Rightarrow> val \<Rightarrow> val run" where
  "call_then fenv VUndefined f = throw VTypeError"
| "call_then fenv VNull f = throw VTypeError"
| "call_then fenv (VPromise p) f = promise_then fenv p f"
| "call_then fenv (VObj kvs) f = call fenv (lookup kvs ''then'') (VObj kvs) [f]"
| "call_then fenv v f = throw VTypeError"

definition test_body :: "fenv \<Rightarrow> val \<Rightarrow> val \<Rightarrow> val \<Rightarrow> val run" where
  "test_body fenv test docFragment wndw =
     (if nullish test then throw VTypeError
      else seq (call fenv (field test ''getActual'') test [docFragment, wndw])
             (\<lambda>actual. call_then fenv actual (field test ''comparison'')))"

text \<open>The runner records a test as failed when its body throws or returns a promise
  that rejects.\<close>

fun test_fails :: "val run \<Rightarrow> bool" where
  "test_fails (es, Threw e) = True"
| "test_fails (es, Ok (VPromise (Rejected e))) = True"
| "test_fails r = False"

text \<open>The two hook registrations at the head of a group's body.\<close>

definition hooks :: "val \<Rightarrow> val \<Rightarrow> val \<Rightarrow> unit run" where
  "hooks test docFragment wndw =
     ((if is_function (field test ''before'') then [BeforeHook test wndw] else [])
      @ (if is_function (field test ''beforeEach'')
         then [BeforeEachHook test docFragment wndw] else []), Ok ())"

lemma seq_cong [fundef_cong]:
  "m = m' \<Longrightarrow> (\<And>x. f x = g x) \<Longrightarrow> seq m f = seq m' g"
proof -
  assume eq: "m = m'" and ext: "\<And>x. f x = g x"
  obtain es r where m': "m' = (es, r)" by (cases m')
  show ?thesis unfolding eq m' by (cases r) (simp_all add: ext)
qed

lemma forEach_cong [fundef_cong]:
  "xs = ys \<Longrightarrow> (\<And>x. x \<in> set ys \<Longrightarrow> f x = g x) \<Longrightarrow> forEach f xs = forEach g ys"
  by (induction ys arbitrary: xs) auto

lemma for_index_cong [fundef_cong]:
  "xs = ys \<Longrightarrow> (\<And>j x. f j x = g j x) \<Longrightarrow> for_index f i xs = for_index g i ys"
  by (induction ys arbitrary: xs i) auto

lemma size_lookup: "size (lookup kvs k) \<le> size_list (size_prod (\<lambda>_. 0) size) kvs"
  by (induction kvs) auto

lemma size_field: "size (field v k) \<le> size v"
  using size_lookup [of _ k] by (cases v) (auto simp: le_Suc_eq)

lemma size_element: "x \<in> set xs \<Longrightarrow> size x < size (VArr xs)"
  by (induction xs) auto

text \<open>
\<^verbatim>\<open>
const testParser = (tests, docFragment, wndw, index) => {
  if (docFragment.document && typeof wndw === 'undefined') {
    wndw = docFragment;
    docFragment = wndw.document;
  }

  if (!Array.isArray(tests)) return;
  tests.forEach(test => {
    if (test.feature) {
      if (typeof test.set === 'function') {
        const docFragmentArray = test.set(docFragment);
        describe(test.feature, () => {
          if (typeof test.before === 'function')
            before(done => test.before(done, wndw));
          if (typeof test.beforeEach === 'function')
            beforeEach(done => test.beforeEach(done, docFragment, wndw));
          for (let i = 0; i < docFragmentArray.length; i++) {
            describe(`Set index: ${i}`, () => {
              testParser(test.tests, docFragmentArray[i], wndw, i);
            });
          }
        });
      } else if (Array.isArray(test.tests)) {
        describe(test.feature, () => {
          if (typeof test.before === 'function')
            before(done => test.before(done, wndw));
          if (typeof test.beforeEach === 'function')
            beforeEach(done => test.beforeEach(done, docFragment, wndw));
          testParser(test.tests, docFragment, wndw);
        });
      }
    } else if (test.scenario) {
      if (typeof test.set === 'function') {
        const docFragmentArray = test.set(docFragment);
        for (let i = 0; i < docFragmentArray.length; i++) {
          describe(`Set index: ${i}`, () => {
            if (typeof test.given === 'function') {
              if (test.given(docFragment, wndw, index))
                itter(test, docFragmentArray[i], wndw);
            } else {
              itter(test, docFragmentArray[i], wndw);
            }
          });
        }
      } else if (Array.isArray(test.inherit)) {
        describe(test.scenario, () => {
          testParser(test.inherit, getDomFragment(test, docFragment), wndw);
        });
      } else if (typeof test.given === 'function') {
        if (test.given(docFragment, wndw, index))
          itter(test, getDomFragment(test, docFragment), wndw);
      } else {
        itter(test, getDomFragment(test, docFragment), wndw);
      }
    }
  });
};
\<close>
  \<open>testParser\<close> is the function; \<open>each_test\<close> is the arrow function it hands to
  \<^verbatim>\<open>forEach\<close>, with the variables it captures (\<open>docFragment\<close>, \<open>wndw\<close> and \<open>index\<close>,
  as they are after the first \<^verbatim>\<open>if\<close>) as parameters. The first read of a property of
  \<open>docFragment\<close> and of \<open>test\<close> throws on \<^verbatim>\<open>null\<close>/\<^verbatim>\<open>undefined\<close>; the later
  reads of the same variable cannot. A parameter that is left out of a call is
  \<^verbatim>\<open>undefined\<close>.\<close>

function testParser :: "fenv \<Rightarrow> val \<Rightarrow> val \<Rightarrow> val \<Rightarrow> val \<Rightarrow> unit run"
  and each_test :: "fenv \<Rightarrow> val \<Rightarrow> val \<Rightarrow> val \<Rightarrow> val \<Rightarrow> unit run"
where
  "testParser fenv tests docFragment wndw index =
     (if nullish docFragment then throw VTypeError
      else if truthy (field docFragment ''document'') \<and> wndw = VUndefined
      then (case tests of
              VArr ts \<Rightarrow>
                forEach (each_test fenv (field docFragment ''document'') docFragment index) ts
            | _ \<Rightarrow> no_op)
      else (case tests of
              VArr ts \<Rightarrow> forEach (each_test fenv docFragment wndw index) ts
            | _ \<Rightarrow> no_op))"
| "each_test fenv docFragment wndw index test =
     (if nullish test then throw VTypeError
      else if truthy (field test ''feature'') then
        (if is_function (field test ''set'') then
           seq (call fenv (field test ''set'') test [docFragment]) (\<lambda>docFragmentArray.
             describe (field test ''feature'')
               (seq (hooks test docFragment wndw) (\<lambda>_.
                seq (array_items docFragmentArray) (\<lambda>items.
                  for_index (\<lambda>i item.
                    describe (set_index i)
                      (testParser fenv (field test ''tests'') item wndw (VNum (int i))))
                    0 items))))
         else if is_array (field test ''tests'') then
           describe (field test ''feature'')
             (seq (hooks test docFragment wndw) (\<lambda>_.
                testParser fenv (field test ''tests'') docFragment wndw VUndefined))
         else no_op)
      else if truthy (field test ''scenario'') then
        (if is_function (field test ''set'') then
           seq (call fenv (field test ''set'') test [docFragment]) (\<lambda>docFragmentArray.
             seq (array_items docFragmentArray) (\<lambda>items.
               for_index (\<lambda>i item.
                 describe (set_index i)
                   (if is_function (field test ''given'') then
                      seq (call fenv (field test ''given'') test [docFragment, wndw, index])
                        (\<lambda>g. if truthy g then itter test item wndw else no_op)
                    else itter test item wndw))
                 0 items))
         else if is_array (field test ''inherit'') then
           describe (field test ''scenario'')
             (seq (getDomFragment fenv test docFragment) (\<lambda>fragment.
                testParser fenv (field test ''inherit'') fragment wndw VUndefined))
         else if is_function (field test ''given'') then
           seq (call fenv (field test ''given'') test [docFragment, wndw, index])
             (\<lambda>g. if truthy g
                  then seq (getDomFragment fenv test docFragment)
                         (\<lambda>fragment. itter test fragment wndw)
                  else no_op)
         else seq (getDomFragment fenv test docFragment)
                (\<lambda>fragment. itter test fragment wndw))
      else no_op)"
  by pat_completeness auto

termination
proof (relation "measure (\<lambda>x. case x of
           Inl (fenv, tests, docFragment, wndw, index) \<Rightarrow> 2 * size tests
         | Inr (fenv, docFragment, wndw, index, test) \<Rightarrow> 2 * size test + 1)")
  show "wf (measure (\<lambda>x. case x of
           Inl (fenv, tests, docFragment, wndw, index) \<Rightarrow> 2 * size tests
         | Inr (fenv, docFragment, wndw, index, test) \<Rightarrow> 2 * size test + 1))"
    by simp
next
  fix fenv :: fenv and tests docFragment wndw index :: val and ts x
  assume "tests = VArr ts" and "x \<in> set ts"
  then have "size x < size tests" using size_element by simp
  then show "(Inr (fenv, field docFragment ''document'', docFragment, index, x),
              Inl (fenv, tests, docFragment, wndw, index)) \<in> measure (\<lambda>x. case x of
           Inl (fenv, tests, docFragment, wndw, index) \<Rightarrow> 2 * size tests
         | Inr (fenv, docFragment, wndw, index, test) \<Rightarrow> 2 * size test + 1)"
    by simp
next
  fix fenv :: fenv and tests docFragment wndw index :: val and ts x
  assume "tests = VArr ts" and "x \<in> set ts"
  then have "size x < size tests" using size_element by simp
  then show "(Inr (fenv, docFragment, wndw, index, x),
              Inl (fenv, tests, docFragment, wndw, index)) \<in> measure (\<lambda>x. case x of
           Inl (fenv, tests, docFragment, wndw, index) \<Rightarrow> 2 * size tests
         | Inr (fenv, docFragment, wndw, index, test) \<Rightarrow> 2 * size test + 1)"
    by simp
qed (use size_field in \<open>auto simp: le_imp_less_Suc\<close>)

declare testParser.simps [simp del] each_test.simps [simp del]

section \<open>Vocabulary of the properties\<close>

text \<open>The scope and the context a call of \<open>testParser\<close> works with, after its first
  \<^verbatim>\<open>if\<close>.\<close>

definition current_scope :: "val \<Rightarrow> val \<Rightarrow> val" where
  "current_scope docFragment wndw =
     (if truthy (field docFragment ''document'') \<and> wndw = VUndefined
      then field docFragment ''document'' else docFragment)"

definition current_context :: "val \<Rightarrow> val \<Rightarrow> val" where
  "current_context docFragment wndw =
     (if truthy (field docFragment ''document'') \<and> wndw = VUndefined
      then docFragment else wndw)"

text \<open>The call of \<^verbatim>\<open>given\<close> a leaf makes, if it has a callable one, and whether the leaf
  gets past it.\<close>

definition guard_calls :: "val \<Rightarrow> val \<Rightarrow> val \<Rightarrow> val \<Rightarrow> event list" where
  "guard_calls test docFragment wndw index =
     (case field test ''given'' of
        VFun gf \<Rightarrow> [Called gf test [docFragment, wndw, index]]
      | _ \<Rightarrow> [])"

definition guard_passes :: "fenv \<Rightarrow> val \<Rightarrow> val \<Rightarrow> val \<Rightarrow> val \<Rightarrow> bool" where
  "guard_passes fenv test docFragment wndw index =
     (case field test ''given'' of
        VFun gf \<Rightarrow> (case fenv gf test [docFragment, wndw, index] of
                     Ok g \<Rightarrow> truthy g | _ \<Rightarrow> False)
      | _ \<Rightarrow> True)"

text \<open>The names of the groups registered at the top of a run.\<close>

fun group_names :: "event list \<Rightarrow> val list" where
  "group_names [] = []"
| "group_names (Group name es # rest) = name # group_names rest"
| "group_names (e # rest) = group_names rest"

text \<open>A thenable: a promise, or an object with a callable \<^verbatim>\<open>then\<close>.\<close>

fun thenable :: "val \<Rightarrow> bool" where
  "thenable (VPromise p) = True"
| "thenable (VObj kvs) = is_function (lookup kvs ''then'')"
| "thenable v = False"

text \<open>The Fragment Resolver as the specification words it, to compare with
  \<open>getDomFragment\<close>: ``if \<^verbatim>\<open>node.getDomFragment\<close> is a callable, call it with
  \<^verbatim>\<open>(node, scope)\<close> and return its result; otherwise return \<^verbatim>\<open>scope\<close> unchanged''.\<close>

definition spec_resolve :: "fenv \<Rightarrow> val \<Rightarrow> val \<Rightarrow> val run" where
  "spec_resolve fenv node scope =
     (if is_function (field node ''getDomFragment'')
      then call fenv (field node ''getDomFragment'') node [node, scope]
      else ([], Ok scope))"

subsection \<open>Sample inputs\<close>

text \<open>An environment of callbacks: 0 returns the number of arguments it was called
  with; 1 returns the array \<^verbatim>\<open>['a', 'b']\<close>; 2 and 3 return \<^verbatim>\<open>false\<close> and
  \<^verbatim>\<open>true\<close>; 4 returns a promise fulfilled with 1; 5 returns the plain number 1; 6 returns
  \<^verbatim>\<open>undefined\<close>; 8 returns a promise rejected with \<^verbatim>\<open>'no'\<close>; every other one
  throws the string \<^verbatim>\<open>'boom'\<close>.\<close>

fun sample_env :: fenv where
  "sample_env f this args =
     (if f = 0 then Ok (VNum (int (length args)))
      else if f = 1 then Ok (VArr [VStr ''a'', VStr ''b''])
      else if f = 2 then Ok (VBool False)
      else if f = 3 then Ok (VBool True)
      else if f = 4 then Ok (VPromise (Fulfilled (VNum 1)))
      else if f = 5 then Ok (VNum 1)
      else if f = 6 then Ok VUndefined
      else if f = 8 then Ok (VPromise (Rejected (VStr ''no'')))
      else Threw (VStr ''boom''))"

text \<open>\<^verbatim>\<open>{scenario: 'S', getDomFragment: f0}\<close>, and the same leaf with
  \<^verbatim>\<open>given: f3\<close> (true).\<close>

definition resolving_leaf :: val where
  "resolving_leaf = VObj [(''scenario'', VStr ''S''), (''getDomFragment'', VFun 0)]"

definition guarded_leaf :: val where
  "guarded_leaf =
     VObj [(''scenario'', VStr ''S''), (''given'', VFun 3), (''getDomFragment'', VFun 0)]"

text \<open>\<^verbatim>\<open>{scenario: 'S', inherit: [{scenario: 'T'}], getDomFragment: f0}\<close>\<close>

definition inheriting_leaf :: val where
  "inheriting_leaf =
     VObj [(''scenario'', VStr ''S''), (''inherit'', VArr [VObj [(''scenario'', VStr ''T'')]]),
           (''getDomFragment'', VFun 0)]"

text \<open>\<^verbatim>\<open>{scenario: 'S', set: f1, getDomFragment: f0}\<close>, and the same leaf with
  \<^verbatim>\<open>given: f2\<close> (false) or \<^verbatim>\<open>given: f3\<close> (true).\<close>

definition fan_leaf :: val where
  "fan_leaf =
     VObj [(''scenario'', VStr ''S''), (''set'', VFun 1), (''getDomFragment'', VFun 0)]"

definition fan_leaf_given :: "nat \<Rightarrow> val" where
  "fan_leaf_given g =
     VObj [(''scenario'', VStr ''S''), (''set'', VFun 1), (''given'', VFun g)]"

text \<open>\<^verbatim>\<open>{scenario: 'S', getActual: f, comparison: g}\<close>\<close>

definition acting_leaf :: "nat \<Rightarrow> nat \<Rightarrow> val" where
  "acting_leaf ga cmp =
     VObj [(''scenario'', VStr ''S''), (''getActual'', VFun ga), (''comparison'', VFun cmp)]"

text \<open>\<^verbatim>\<open>{feature: 'F', set: f7, tests: []}\<close> and \<^verbatim>\<open>{scenario: 'S', set: f7}\<close>, whose
  \<^verbatim>\<open>set\<close> throws; \<^verbatim>\<open>{scenario: 'P'}\<close>, a plain leaf.\<close>

definition failing_group :: val where
  "failing_group = VObj [(''feature'', VStr ''F''), (''set'', VFun 7), (''tests'', VArr [])]"

definition failing_leaf :: val where
  "failing_leaf = VObj [(''scenario'', VStr ''S''), (''set'', VFun 7)]"

definition plain_leaf :: val where
  "plain_leaf = VObj [(''scenario'', VStr ''P'')]"

lemmas sample_defs =
  resolving_leaf_def guarded_leaf_def inheriting_leaf_def fan_leaf_def fan_leaf_given_def acting_leaf_def
  failing_group_def failing_leaf_def plain_leaf_def

section \<open>Lemmas on the primitives\<close>

lemma truthy_not_nullish: "truthy v \<Longrightarrow> \<not> nullish v"
  by (cases v) auto

lemma truthy_field_not_nullish: "truthy (field v k) \<Longrightarrow> \<not> nullish v"
  by (cases v) auto

lemma describe_run: "describe name r = ([Group name (fst r)], snd r)"
  by (cases r) simp

lemma forEach_append:
  "forEach f (xs @ ys) = seq (forEach f xs) (\<lambda>_. forEach f ys)"
proof (induction xs)
  case Nil
  show ?case by (cases "forEach f ys") (simp add: no_op_def)
next
  case (Cons x xs)
  obtain es r where fx: "f x = (es, r)" by (cases "f x")
  obtain es' r' where fxs: "forEach f xs = (es', r')" by (cases "forEach f xs")
  obtain es'' r'' where fys: "forEach f ys = (es'', r'')" by (cases "forEach f ys")
  show ?case using Cons.IH
    by (cases r; cases r') (simp_all add: fx fxs fys)
qed

text \<open>A loop whose body opens one group per element and does not throw.\<close>

lemma for_index_groups:
  "for_index (\<lambda>i item. describe (set_index i) (body item, Ok ())) k xs =
     (map (\<lambda>i. Group (set_index (k + i)) (body (xs ! i))) [0 ..< length xs], Ok ())"
proof (induction xs arbitrary: k)
  case Nil
  show ?case by (simp add: no_op_def)
next
  case (Cons x xs)
  have "[0 ..< length (x # xs)] = 0 # map Suc [0 ..< length xs]"
    by (simp add: upt_conv_Cons map_Suc_upt del: upt_Suc)
  moreover have "for_index (\<lambda>i item. describe (set_index i) (body item, Ok ())) k (x # xs) =
      seq (describe (set_index k) (body x, Ok ())) (\<lambda>_.
        (map (\<lambda>i. Group (set_index (Suc k + i)) (body (xs ! i))) [0 ..< length xs], Ok ()))"
    by (simp only: for_index.simps Cons.IH)
  ultimately show ?case
    by (simp add: comp_def del: upt_Suc)
qed

lemma group_names_map: "group_names (map (\<lambda>i. Group (name i) (body i)) js) = map name js"
  by (induction js) simp_all

section \<open>Lemmas on the program\<close>

lemma getDomFragment_callable:
  "field test ''getDomFragment'' = VFun df \<Longrightarrow>
   getDomFragment fenv test docFragment =
     ([Called df test [docFragment]], fenv df test [docFragment])"
  by (cases test) (simp_all add: getDomFragment_def)

lemma getDomFragment_absent:
  "\<not> is_function (field test ''getDomFragment'') \<Longrightarrow>
   getDomFragment fenv test docFragment = ([], Ok docFragment)"
  by (simp add: getDomFragment_def)

lemma itter_leaf:
  "truthy (field test ''scenario'') \<Longrightarrow>
   itter test docFragment wndw = ([Test (field test ''scenario'') test docFragment wndw], Ok ())"
  using truthy_field_not_nullish [of test "''scenario''"] by (simp add: itter_def)

lemma testParser_array:
  "testParser fenv (VArr ts) docFragment wndw index =
     (if nullish docFragment then throw VTypeError
      else forEach (each_test fenv (current_scope docFragment wndw)
                      (current_context docFragment wndw) index) ts)"
  by (simp add: testParser.simps current_scope_def current_context_def)

lemma testParser_Ok_not_nullish:
  "snd (testParser fenv tests docFragment wndw index) = Ok () \<Longrightarrow> \<not> nullish docFragment"
  by (auto simp: testParser.simps throw_def)

text \<open>A throw in the callback ends \<^verbatim>\<open>forEach\<close>, and with it the call.\<close>

lemma testParser_stops:
  assumes "snd (testParser fenv (VArr pre) docFragment wndw index) = Ok ()"
    and "each_test fenv (current_scope docFragment wndw) (current_context docFragment wndw)
           index test = (es, Threw e)"
  shows "testParser fenv (VArr (pre @ test # post)) docFragment wndw index =
           (fst (testParser fenv (VArr pre) docFragment wndw index) @ es, Threw e)"
proof -
  let ?f = "each_test fenv (current_scope docFragment wndw)
              (current_context docFragment wndw) index"
  have nn: "\<not> nullish docFragment" using assms(1) by (rule testParser_Ok_not_nullish)
  obtain es' where pre: "forEach ?f pre = (es', Ok ())"
    using assms(1) nn by (cases "forEach ?f pre") (simp add: testParser_array)
  show ?thesis
    using nn by (simp add: testParser_array forEach_append pre assms(2))
qed

text \<open>When the guard lets the leaf through, the two branches on \<^verbatim>\<open>given\<close> differ by the
  call of \<^verbatim>\<open>given\<close> only.\<close>

lemma guarded_run:
  assumes "guard_passes fenv test docFragment wndw index"
  shows "(if is_function (field test ''given'') then
            seq (call fenv (field test ''given'') test [docFragment, wndw, index])
              (\<lambda>g. if truthy g then k else no_op)
          else k) = seq (guard_calls test docFragment wndw index, Ok ()) (\<lambda>_. k)"
proof (cases "field test ''given''")
  case (VFun gf)
  then show ?thesis using assms
    by (cases "fenv gf test [docFragment, wndw, index]")
       (simp_all add: guard_passes_def guard_calls_def)
qed (simp_all add: guard_calls_def)

text \<open>The four branches of a leaf.\<close>

lemma direct_leaf_run:
  assumes "\<not> truthy (field test ''feature'')" and "truthy (field test ''scenario'')"
    and "\<not> is_function (field test ''set'')" and "\<not> is_array (field test ''inherit'')"
    and "guard_passes fenv test docFragment wndw index"
  shows "each_test fenv docFragment wndw index test =
           seq (guard_calls test docFragment wndw index, Ok ()) (\<lambda>_.
             seq (getDomFragment fenv test docFragment)
               (\<lambda>fragment. itter test fragment wndw))"
proof -
  have "each_test fenv docFragment wndw index test =
          (if is_function (field test ''given'') then
             seq (call fenv (field test ''given'') test [docFragment, wndw, index])
               (\<lambda>g. if truthy g
                    then seq (getDomFragment fenv test docFragment)
                           (\<lambda>fragment. itter test fragment wndw)
                    else no_op)
           else seq (getDomFragment fenv test docFragment)
                  (\<lambda>fragment. itter test fragment wndw))"
    using assms(1-4) truthy_field_not_nullish [OF assms(2)] by (simp add: each_test.simps)
  then show ?thesis by (simp only: guarded_run [OF assms(5)])
qed

lemma inheriting_leaf_run:
  assumes "\<not> truthy (field test ''feature'')" and "truthy (field test ''scenario'')"
    and "\<not> is_function (field test ''set'')" and "is_array (field test ''inherit'')"
  shows "each_test fenv docFragment wndw index test =
           describe (field test ''scenario'')
             (seq (getDomFragment fenv test docFragment) (\<lambda>fragment.
                testParser fenv (field test ''inherit'') fragment wndw VUndefined))"
  using assms truthy_field_not_nullish [OF assms(2)] by (simp add: each_test.simps)

lemma fan_out_leaf_run:
  assumes "\<not> truthy (field test ''feature'')" and "truthy (field test ''scenario'')"
    and "field test ''set'' = VFun sf"
    and "fenv sf test [docFragment] = Ok (VArr xs)"
  shows "each_test fenv docFragment wndw index test =
           seq ([Called sf test [docFragment]], Ok ()) (\<lambda>_.
             for_index (\<lambda>i item.
                 describe (set_index i)
                   (if is_function (field test ''given'') then
                      seq (call fenv (field test ''given'') test [docFragment, wndw, index])
                        (\<lambda>g. if truthy g then itter test item wndw else no_op)
                    else itter test item wndw))
                 0 xs)"
  using assms truthy_field_not_nullish [OF assms(2)]
  by (simp add: each_test.simps)

lemma fan_out_leaf_given:
  assumes "\<not> truthy (field test ''feature'')" and "truthy (field test ''scenario'')"
    and "field test ''set'' = VFun sf"
    and "fenv sf test [docFragment] = Ok (VArr xs)"
    and "field test ''given'' = VFun gf"
    and "fenv gf test [docFragment, wndw, index] = Ok g"
  shows "each_test fenv docFragment wndw index test =
           (Called sf test [docFragment] #
            map (\<lambda>i. Group (set_index i)
                   (Called gf test [docFragment, wndw, index] #
                    (if truthy g then [Test (field test ''scenario'') test (xs ! i) wndw]
                     else [])))
              [0 ..< length xs], Ok ())"
proof -
  let ?body = "\<lambda>item. Called gf test [docFragment, wndw, index] #
                 (if truthy g then [Test (field test ''scenario'') test item wndw] else [])"
  have "(\<lambda>i item. describe (set_index i)
           (if is_function (field test ''given'') then
              seq (call fenv (field test ''given'') test [docFragment, wndw, index])
                (\<lambda>g. if truthy g then itter test item wndw else no_op)
            else itter test item wndw)) =
        (\<lambda>i item. describe (set_index i) (?body item, Ok ()))"
    using assms(5,6) by (cases "truthy g") (simp_all add: itter_leaf [OF assms(2)] no_op_def)
  then show ?thesis
    unfolding fan_out_leaf_run [where fenv = fenv, OF assms(1-4)]
    by (simp only: for_index_groups) simp
qed

lemma fan_out_leaf_no_given:
  assumes "\<not> truthy (field test ''feature'')" and "truthy (field test ''scenario'')"
    and "field test ''set'' = VFun sf"
    and "fenv sf test [docFragment] = Ok (VArr xs)"
    and "\<not> is_function (field test ''given'')"
  shows "each_test fenv docFragment wndw index test =
           (Called sf test [docFragment] #
            map (\<lambda>i. Group (set_index i)
                   [Test (field test ''scenario'') test (xs ! i) wndw])
              [0 ..< length xs], Ok ())"
proof -
  have "(\<lambda>i item. describe (set_index i)
           (if is_function (field test ''given'') then
              seq (call fenv (field test ''given'') test [docFragment, wndw, index])
                (\<lambda>g. if truthy g then itter test item wndw else no_op)
            else itter test item wndw)) =
        (\<lambda>i item. describe (set_index i)
           ([Test (field test ''scenario'') test item wndw], Ok ()))"
    using assms(5) by (simp add: itter_leaf [OF assms(2)])
  then show ?thesis
    unfolding fan_out_leaf_run [where fenv = fenv, OF assms(1-4)]
    by (simp only: for_index_groups) simp
qed

lemma set_throws:
  assumes "truthy (field test ''feature'') \<or> truthy (field test ''scenario'')"
    and "field test ''set'' = VFun sf" and "fenv sf test [docFragment] = Threw e"
  shows "each_test fenv docFragment wndw index test = ([Called sf test [docFragment]], Threw e)"
proof -
  have "\<not> nullish test" using assms(1) truthy_field_not_nullish by blast
  then show ?thesis using assms by (auto simp: each_test.simps)
qed

section \<open>The claims\<close>

text \<open>
  \<^bold>\<open>C1\<close> (fragment resolution), as the code has it. The claim is that a leaf with a
  callable \<^verbatim>\<open>getDomFragment\<close> runs against \<^verbatim>\<open>getDomFragment(node, scope)\<close> on every
  leaf path, the fan-out leaf included. The code calls \<^verbatim>\<open>test.getDomFragment(docFragment)\<close>:
  one argument, the scope, with the node as \<^verbatim>\<open>this\<close>; and the fan-out branch hands the
  generated fragment to \<open>itter\<close> without resolving it.

  Counterexample: with a \<^verbatim>\<open>getDomFragment\<close> that returns the number of its arguments,
  the direct leaf is registered against 1 where the resolver of the specification gives 2;
  and the fan-out leaf is registered against the generated fragments \<^verbatim>\<open>'a'\<close> and
  \<^verbatim>\<open>'b'\<close>, not against what either resolver returns for them.
\<close>

theorem C1_fragment_resolution_counterexample:
  "getDomFragment sample_env resolving_leaf (VStr ''D'') =
     ([Called 0 resolving_leaf [VStr ''D'']], Ok (VNum 1))
   \<and> spec_resolve sample_env resolving_leaf (VStr ''D'') =
     ([Called 0 resolving_leaf [resolving_leaf, VStr ''D'']], Ok (VNum 2))
   \<and> getDomFragment sample_env resolving_leaf (VStr ''D'')
       \<noteq> spec_resolve sample_env resolving_leaf (VStr ''D'')
   \<and> each_test sample_env (VStr ''D'') VNull VUndefined resolving_leaf =
     ([Called 0 resolving_leaf [VStr ''D''],
       Test (VStr ''S'') resolving_leaf (VNum 1) VNull], Ok ())
   \<and> each_test sample_env (VStr ''D'') VNull VUndefined fan_leaf =
     ([Called 1 fan_leaf [VStr ''D''],
       Group (VStr ''Set index: 0'') [Test (VStr ''S'') fan_leaf (VStr ''a'') VNull],
       Group (VStr ''Set index: 1'') [Test (VStr ''S'') fan_leaf (VStr ''b'') VNull]], Ok ())
   \<and> snd (getDomFragment sample_env fan_leaf (VStr ''a'')) = Ok (VNum 1)
   \<and> snd (spec_resolve sample_env fan_leaf (VStr ''a'')) = Ok (VNum 2)"
  by (simp add: sample_defs set_index_def show_nat.simps spec_resolve_def
        each_test.simps getDomFragment_def itter_def no_op_def)

text \<open>
  \<^bold>\<open>C1\<close>, amended. For a leaf whose \<^verbatim>\<open>getDomFragment\<close> is callable and returns \<open>s\<close>
  when called on the node with the single argument \<open>docFragment\<close>, and whose guard lets it
  through: a direct leaf (conditional or not) registers its test against \<open>s\<close>; an inheriting
  leaf walks \<^verbatim>\<open>inherit\<close> against \<open>s\<close>; a fan-out leaf registers its tests against the
  generated fragments themselves, and \<^verbatim>\<open>getDomFragment\<close> is not called. A node with no
  callable \<^verbatim>\<open>getDomFragment\<close> resolves to the scope unchanged.
\<close>

theorem C1_fragment_resolution:
  assumes "\<not> truthy (field test ''feature'')" and "truthy (field test ''scenario'')"
    and "field test ''getDomFragment'' = VFun df"
    and "fenv df test [docFragment] = Ok s"
    and "guard_passes fenv test docFragment wndw index"
  shows "(\<not> is_function (field test ''set'') \<and> \<not> is_array (field test ''inherit'') \<longrightarrow>
            each_test fenv docFragment wndw index test =
              (guard_calls test docFragment wndw index @
               [Called df test [docFragment], Test (field test ''scenario'') test s wndw], Ok ()))
       \<and> (\<not> is_function (field test ''set'') \<and> is_array (field test ''inherit'') \<longrightarrow>
            each_test fenv docFragment wndw index test =
              ([Group (field test ''scenario'')
                 (Called df test [docFragment] #
                  fst (testParser fenv (field test ''inherit'') s wndw VUndefined))],
               snd (testParser fenv (field test ''inherit'') s wndw VUndefined)))
       \<and> (field test ''set'' = VFun sf \<and> fenv sf test [docFragment] = Ok (VArr xs) \<longrightarrow>
            each_test fenv docFragment wndw index test =
              (Called sf test [docFragment] #
               map (\<lambda>i. Group (set_index i)
                      (guard_calls test docFragment wndw index @
                       [Test (field test ''scenario'') test (xs ! i) wndw]))
                 [0 ..< length xs], Ok ()))
       \<and> (\<forall>node scope. \<not> is_function (field node ''getDomFragment'') \<longrightarrow>
            getDomFragment fenv node scope = ([], Ok scope))"
proof (intro conjI impI allI)
  assume "\<not> is_function (field test ''set'') \<and> \<not> is_array (field test ''inherit'')"
  then show "each_test fenv docFragment wndw index test =
      (guard_calls test docFragment wndw index @
       [Called df test [docFragment], Test (field test ''scenario'') test s wndw], Ok ())"
    using direct_leaf_run [OF assms(1,2) _ _ assms(5)]
    by (simp add: getDomFragment_callable [OF assms(3)] assms(4) itter_leaf [OF assms(2)])
next
  assume "\<not> is_function (field test ''set'') \<and> is_array (field test ''inherit'')"
  then show "each_test fenv docFragment wndw index test =
      ([Group (field test ''scenario'')
         (Called df test [docFragment] #
          fst (testParser fenv (field test ''inherit'') s wndw VUndefined))],
       snd (testParser fenv (field test ''inherit'') s wndw VUndefined))"
    using inheriting_leaf_run [OF assms(1,2), of fenv docFragment wndw index]
    by (simp add: getDomFragment_callable [OF assms(3)] assms(4) describe_run
          split: prod.splits)
next
  assume set: "field test ''set'' = VFun sf \<and> fenv sf test [docFragment] = Ok (VArr xs)"
  note given = fan_out_leaf_given [where fenv = fenv,
      OF assms(1,2) conjunct1 [OF set] conjunct2 [OF set]]
  note no_given = fan_out_leaf_no_given [where fenv = fenv,
      OF assms(1,2) conjunct1 [OF set] conjunct2 [OF set]]
  show "each_test fenv docFragment wndw index test =
      (Called sf test [docFragment] #
       map (\<lambda>i. Group (set_index i)
              (guard_calls test docFragment wndw index @
               [Test (field test ''scenario'') test (xs ! i) wndw]))
         [0 ..< length xs], Ok ())"
  proof (cases "field test ''given''")
    case (VFun gf)
    then obtain g where "fenv gf test [docFragment, wndw, index] = Ok g" and "truthy g"
      using assms(5) by (auto simp: guard_passes_def split: res.splits)
    then show ?thesis
      using given [OF VFun] by (simp add: guard_calls_def VFun)
  qed (use no_given in \<open>simp_all add: guard_calls_def\<close>)
next
  fix node scope
  assume "\<not> is_function (field node ''getDomFragment'')"
  then show "getDomFragment fenv node scope = ([], Ok scope)"
    by (rule getDomFragment_absent)
qed

theorem C1_fragment_resolution_witness:
  "each_test sample_env (VStr ''D'') VNull VUndefined resolving_leaf =
     ([Called 0 resolving_leaf [VStr ''D''],
       Test (VStr ''S'') resolving_leaf (VNum 1) VNull], Ok ())
   \<and> each_test sample_env (VStr ''D'') VNull VUndefined guarded_leaf =
     ([Called 3 guarded_leaf [VStr ''D'', VNull, VUndefined],
       Called 0 guarded_leaf [VStr ''D''],
       Test (VStr ''S'') guarded_leaf (VNum 1) VNull], Ok ())
   \<and> each_test sample_env (VStr ''D'') VNull VUndefined inheriting_leaf =
     ([Group (VStr ''S'')
        [Called 0 inheriting_leaf [VStr ''D''],
         Test (VStr ''T'') (VObj [(''scenario'', VStr ''T'')]) (VNum 1) VNull]], Ok ())
   \<and> each_test sample_env (VStr ''D'') VNull VUndefined fan_leaf =
     ([Called 1 fan_leaf [VStr ''D''],
       Group (VStr ''Set index: 0'') [Test (VStr ''S'') fan_leaf (VStr ''a'') VNull],
       Group (VStr ''Set index: 1'') [Test (VStr ''S'') fan_leaf (VStr ''b'') VNull]], Ok ())
   \<and> getDomFragment sample_env plain_leaf (VStr ''D'') = ([], Ok (VStr ''D''))"
  using C1_fragment_resolution [of resolving_leaf 0 sample_env "VStr ''D''" "VNum 1"
          VNull VUndefined 0 "[]"]
        C1_fragment_resolution [of guarded_leaf 0 sample_env "VStr ''D''" "VNum 1"
          VNull VUndefined 0 "[]"]
        C1_fragment_resolution [of inheriting_leaf 0 sample_env "VStr ''D''" "VNum 1"
          VNull VUndefined 0 "[]"]
        C1_fragment_resolution [of fan_leaf 0 sample_env "VStr ''D''" "VNum 1"
          VNull VUndefined 1 "[VStr ''a'', VStr ''b'']"]
  by (simp add: sample_defs set_index_def show_nat.simps guard_passes_def guard_calls_def
        testParser.simps each_test.simps getDomFragment_def itter_def no_op_def)

text \<open>
  \<^bold>\<open>C2\<close>. A leaf (truthy \<^verbatim>\<open>scenario\<close>, falsy \<^verbatim>\<open>feature\<close>) whose \<^verbatim>\<open>set\<close> is callable
  and returns an array of length \<open>n\<close> registers exactly \<open>n\<close> groups, named
  \<^verbatim>\<open>Set index: 0\<close> to \<^verbatim>\<open>Set index: n-1\<close> in this order, and returns; this holds when
  there is no callable \<^verbatim>\<open>given\<close> and when \<^verbatim>\<open>given\<close> returns any value \<open>g\<close>, true or
  false.
\<close>

theorem C2_fan_out_leaf_groups:
  assumes "\<not> truthy (field test ''feature'')" and "truthy (field test ''scenario'')"
    and "field test ''set'' = VFun sf"
    and "fenv sf test [docFragment] = Ok (VArr xs)"
    and "\<not> is_function (field test ''given'')
         \<or> field test ''given'' = VFun gf \<and> fenv gf test [docFragment, wndw, index] = Ok g"
  shows "group_names (fst (each_test fenv docFragment wndw index test)) =
           map (\<lambda>i. VStr (''Set index: '' @ show_nat i)) [0 ..< length xs]
         \<and> snd (each_test fenv docFragment wndw index test) = Ok ()"
  using assms(5)
proof
  assume "\<not> is_function (field test ''given'')"
  then show ?thesis
    by (simp add: fan_out_leaf_no_given [where fenv = fenv, OF assms(1-4)]
          group_names_map set_index_def)
next
  assume "field test ''given'' = VFun gf \<and> fenv gf test [docFragment, wndw, index] = Ok g"
  then show ?thesis
    by (simp add: fan_out_leaf_given [where fenv = fenv, OF assms(1-4)]
          group_names_map set_index_def)
qed

theorem C2_fan_out_leaf_groups_witness:
  "group_names (fst (each_test sample_env (VStr ''D'') VNull VUndefined (fan_leaf_given 2))) =
     [VStr ''Set index: 0'', VStr ''Set index: 1'']
   \<and> snd (each_test sample_env (VStr ''D'') VNull VUndefined (fan_leaf_given 2)) = Ok ()
   \<and> group_names (fst (each_test sample_env (VStr ''D'') VNull VUndefined (fan_leaf_given 3))) =
     [VStr ''Set index: 0'', VStr ''Set index: 1'']
   \<and> group_names (fst (each_test sample_env (VStr ''D'') VNull VUndefined fan_leaf)) =
     [VStr ''Set index: 0'', VStr ''Set index: 1'']"
  using C2_fan_out_leaf_groups [of "fan_leaf_given 2" 1 sample_env "VStr ''D''"
          "[VStr ''a'', VStr ''b'']" 2 VNull VUndefined "VBool False"]
        C2_fan_out_leaf_groups [of "fan_leaf_given 3" 1 sample_env "VStr ''D''"
          "[VStr ''a'', VStr ''b'']" 3 VNull VUndefined "VBool True"]
        C2_fan_out_leaf_groups [of fan_leaf 1 sample_env "VStr ''D''"
          "[VStr ''a'', VStr ''b'']" 0 VNull VUndefined VUndefined]
  by (simp add: sample_defs show_nat.simps)

text \<open>
  \<^bold>\<open>C3\<close>. In a fan-out leaf with a callable \<^verbatim>\<open>given\<close>, every group
  \<^verbatim>\<open>Set index: i\<close> calls \<^verbatim>\<open>given\<close> with the scope, the context and the index of the
  enclosing call (not with the generated fragment, nor with \<open>i\<close>), and \<open>itter\<close> runs on the
  generated fragment \<open>xs ! i\<close> exactly when the result is truthy. With no callable
  \<^verbatim>\<open>given\<close>, \<open>itter\<close> runs on every generated fragment.
\<close>

theorem C3_fan_out_leaf_guard:
  assumes "\<not> truthy (field test ''feature'')" and "truthy (field test ''scenario'')"
    and "field test ''set'' = VFun sf"
    and "fenv sf test [docFragment] = Ok (VArr xs)"
  shows "(field test ''given'' = VFun gf \<and> fenv gf test [docFragment, wndw, index] = Ok g \<longrightarrow>
          each_test fenv docFragment wndw index test =
           (Called sf test [docFragment] #
            map (\<lambda>i. Group (set_index i)
                   (Called gf test [docFragment, wndw, index] #
                    (if truthy g then fst (itter test (xs ! i) wndw) else [])))
              [0 ..< length xs], Ok ()))
       \<and> (\<not> is_function (field test ''given'') \<longrightarrow>
          each_test fenv docFragment wndw index test =
           (Called sf test [docFragment] #
            map (\<lambda>i. Group (set_index i) (fst (itter test (xs ! i) wndw)))
              [0 ..< length xs], Ok ()))"
  using fan_out_leaf_given [where fenv = fenv, OF assms]
    fan_out_leaf_no_given [where fenv = fenv, OF assms]
  by (simp add: itter_leaf [OF assms(2)])

theorem C3_fan_out_leaf_guard_witness:
  "each_test sample_env (VStr ''D'') (VStr ''W'') (VNum 7) (fan_leaf_given 3) =
     ([Called 1 (fan_leaf_given 3) [VStr ''D''],
       Group (VStr ''Set index: 0'')
         [Called 3 (fan_leaf_given 3) [VStr ''D'', VStr ''W'', VNum 7],
          Test (VStr ''S'') (fan_leaf_given 3) (VStr ''a'') (VStr ''W'')],
       Group (VStr ''Set index: 1'')
         [Called 3 (fan_leaf_given 3) [VStr ''D'', VStr ''W'', VNum 7],
          Test (VStr ''S'') (fan_leaf_given 3) (VStr ''b'') (VStr ''W'')]], Ok ())
   \<and> each_test sample_env (VStr ''D'') (VStr ''W'') (VNum 7) (fan_leaf_given 2) =
     ([Called 1 (fan_leaf_given 2) [VStr ''D''],
       Group (VStr ''Set index: 0'')
         [Called 2 (fan_leaf_given 2) [VStr ''D'', VStr ''W'', VNum 7]],
       Group (VStr ''Set index: 1'')
         [Called 2 (fan_leaf_given 2) [VStr ''D'', VStr ''W'', VNum 7]]], Ok ())
   \<and> each_test sample_env (VStr ''D'') (VStr ''W'') (VNum 7) fan_leaf =
     ([Called 1 fan_leaf [VStr ''D''],
       Group (VStr ''Set index: 0'') [Test (VStr ''S'') fan_leaf (VStr ''a'') (VStr ''W'')],
       Group (VStr ''Set index: 1'') [Test (VStr ''S'') fan_leaf (VStr ''b'') (VStr ''W'')]],
      Ok ())"
  using C3_fan_out_leaf_guard [of "fan_leaf_given 3" 1 sample_env "VStr ''D''"
          "[VStr ''a'', VStr ''b'']" 3 "VStr ''W''" "VNum 7" "VBool True"]
        C3_fan_out_leaf_guard [of "fan_leaf_given 2" 1 sample_env "VStr ''D''"
          "[VStr ''a'', VStr ''b'']" 2 "VStr ''W''" "VNum 7" "VBool False"]
        C3_fan_out_leaf_guard [of fan_leaf 1 sample_env "VStr ''D''"
          "[VStr ''a'', VStr ''b'']" 0 "VStr ''W''" "VNum 7" VUndefined]
  by (simp add: sample_defs set_index_def show_nat.simps itter_def)

text \<open>
  \<^bold>\<open>C4\<close>. For a leaf, \<open>itter\<close> registers exactly one test, named \<^verbatim>\<open>test.scenario\<close>.
  When \<^verbatim>\<open>getActual\<close> returns a promise, the body of that test calls
  \<^verbatim>\<open>getActual(scope, context)\<close> and then \<^verbatim>\<open>comparison\<close> on the value the promise was
  fulfilled with, and only if it was fulfilled: \<^verbatim>\<open>comparison\<close> is not called on a promise
  that is rejected or still pending. A rejection of \<^verbatim>\<open>getActual\<close> and a throw of
  \<^verbatim>\<open>comparison\<close> both end as a rejected promise returned to the runner, which is a failed
  test.
\<close>

theorem C4_leaf_executor:
  assumes "truthy (field test ''scenario'')"
    and "field test ''getActual'' = VFun ga"
    and "fenv ga test [scope, context] = Ok (VPromise p)"
    and "field test ''comparison'' = VFun cmp"
  shows "itter test scope context = ([Test (field test ''scenario'') test scope context], Ok ())
       \<and> fst (test_body fenv test scope context) =
           (case p of
              Fulfilled v \<Rightarrow> [Called ga test [scope, context], Called cmp VUndefined [v]]
            | _ \<Rightarrow> [Called ga test [scope, context]])
       \<and> (\<forall>e. p = Rejected e \<longrightarrow>
             snd (test_body fenv test scope context) = Ok (VPromise (Rejected e))
             \<and> test_fails (test_body fenv test scope context))
       \<and> (\<forall>v e. p = Fulfilled v \<and> fenv cmp VUndefined [v] = Threw e \<longrightarrow>
             snd (test_body fenv test scope context) = Ok (VPromise (Rejected e))
             \<and> test_fails (test_body fenv test scope context))
       \<and> (\<forall>v r. p = Fulfilled v \<and> fenv cmp VUndefined [v] = Ok r \<longrightarrow>
             snd (test_body fenv test scope context) = resolve r)"
proof -
  have body: "test_body fenv test scope context =
                seq ([Called ga test [scope, context]], Ok (VPromise p))
                  (\<lambda>actual. call_then fenv actual (VFun cmp))"
    using assms truthy_field_not_nullish [OF assms(1)] by (simp add: test_body_def)
  show ?thesis
  proof (cases p)
    case (Fulfilled v)
    then show ?thesis
      by (cases "fenv cmp VUndefined [v]")
         (simp_all add: body itter_leaf [OF assms(1)])
  qed (simp_all add: body itter_leaf [OF assms(1)])
qed

theorem C4_leaf_executor_witness:
  "itter (acting_leaf 4 6) (VStr ''D'') (VStr ''W'') =
     ([Test (VStr ''S'') (acting_leaf 4 6) (VStr ''D'') (VStr ''W'')], Ok ())
   \<and> test_body sample_env (acting_leaf 4 6) (VStr ''D'') (VStr ''W'') =
     ([Called 4 (acting_leaf 4 6) [VStr ''D'', VStr ''W''], Called 6 VUndefined [VNum 1]],
      Ok (VPromise (Fulfilled VUndefined)))
   \<and> test_body sample_env (acting_leaf 8 6) (VStr ''D'') (VStr ''W'') =
     ([Called 8 (acting_leaf 8 6) [VStr ''D'', VStr ''W'']],
      Ok (VPromise (Rejected (VStr ''no''))))
   \<and> test_fails (test_body sample_env (acting_leaf 8 6) (VStr ''D'') (VStr ''W''))
   \<and> test_body sample_env (acting_leaf 4 7) (VStr ''D'') (VStr ''W'') =
     ([Called 4 (acting_leaf 4 7) [VStr ''D'', VStr ''W''], Called 7 VUndefined [VNum 1]],
      Ok (VPromise (Rejected (VStr ''boom''))))
   \<and> test_fails (test_body sample_env (acting_leaf 4 7) (VStr ''D'') (VStr ''W''))"
  using C4_leaf_executor [of "acting_leaf 4 6" 4 sample_env "VStr ''D''" "VStr ''W''"
          "Fulfilled (VNum 1)" 6]
        C4_leaf_executor [of "acting_leaf 8 6" 8 sample_env "VStr ''D''" "VStr ''W''"
          "Rejected (VStr ''no'')" 6]
        C4_leaf_executor [of "acting_leaf 4 7" 4 sample_env "VStr ''D''" "VStr ''W''"
          "Fulfilled (VNum 1)" 7]
  by (simp add: sample_defs prod_eq_iff)

text \<open>
  \<^bold>\<open>C5\<close>. Calling the walker with a scope whose \<^verbatim>\<open>document\<close> is truthy (as
  \<^verbatim>\<open>{document: D}\<close>) and no context is the same as calling it with the scope
  \<^verbatim>\<open>D\<close> and that object as the context. And any call that is given a context
  (the second call above, and every call it makes in turn, since each one passes its
  context on) works with its scope and context as they are.
\<close>

theorem C5_root_unwrap:
  assumes "truthy (field scope ''document'')"
  shows "testParser fenv nodes scope VUndefined index =
           testParser fenv nodes (field scope ''document'') scope index
         \<and> (\<forall>tests docFragment wndw i. wndw \<noteq> VUndefined \<longrightarrow>
              testParser fenv tests docFragment wndw i =
                (if nullish docFragment then throw VTypeError
                 else case tests of
                        VArr ts \<Rightarrow> forEach (each_test fenv docFragment wndw i) ts
                      | _ \<Rightarrow> no_op))"
proof
  have "\<not> nullish scope" and "scope \<noteq> VUndefined"
    using assms truthy_field_not_nullish by auto
  moreover have "\<not> nullish (field scope ''document'')"
    using assms by (rule truthy_not_nullish)
  ultimately show "testParser fenv nodes scope VUndefined index =
      testParser fenv nodes (field scope ''document'') scope index"
    using assms by (simp add: testParser.simps [of fenv nodes])
next
  show "\<forall>tests docFragment wndw i. wndw \<noteq> VUndefined \<longrightarrow>
          testParser fenv tests docFragment wndw i =
            (if nullish docFragment then throw VTypeError
             else case tests of
                    VArr ts \<Rightarrow> forEach (each_test fenv docFragment wndw i) ts
                  | _ \<Rightarrow> no_op)"
    by (simp add: testParser.simps)
qed

theorem C5_root_unwrap_witness:
  "testParser sample_env (VArr [plain_leaf]) (VObj [(''document'', VStr ''D'')])
     VUndefined VUndefined =
   testParser sample_env (VArr [plain_leaf]) (VStr ''D'') (VObj [(''document'', VStr ''D'')])
     VUndefined
   \<and> testParser sample_env (VArr [plain_leaf]) (VStr ''D'') (VObj [(''document'', VStr ''D'')])
     VUndefined =
     ([Test (VStr ''P'') plain_leaf (VStr ''D'') (VObj [(''document'', VStr ''D'')])], Ok ())"
  using C5_root_unwrap [of "VObj [(''document'', VStr ''D'')]" sample_env "VArr [plain_leaf]"
          VUndefined]
  by (simp add: sample_defs each_test.simps getDomFragment_def itter_def no_op_def)

text \<open>
  \<^bold>\<open>C6\<close>. An inheriting leaf (no callable \<^verbatim>\<open>set\<close>, \<^verbatim>\<open>inherit\<close> an array) registers
  one group named \<^verbatim>\<open>test.scenario\<close>; in it, after the events \<open>es\<close> of resolving the
  fragment, come those of \<open>testParser\<close> on \<^verbatim>\<open>test.inherit\<close> with the resolved scope \<open>s\<close>,
  the same context and an undefined index. The index of the enclosing call plays no part:
  the leaf does the same under any index as under an undefined one.
\<close>

theorem C6_inherit_delegation:
  assumes "\<not> truthy (field test ''feature'')" and "truthy (field test ''scenario'')"
    and "\<not> is_function (field test ''set'')" and "is_array (field test ''inherit'')"
    and "getDomFragment fenv test docFragment = (es, Ok s)"
  shows "each_test fenv docFragment wndw index test =
           ([Group (field test ''scenario'')
              (es @ fst (testParser fenv (field test ''inherit'') s wndw VUndefined))],
            snd (testParser fenv (field test ''inherit'') s wndw VUndefined))
       \<and> each_test fenv docFragment wndw index test =
           each_test fenv docFragment wndw VUndefined test"
proof -
  obtain es' r where inner: "testParser fenv (field test ''inherit'') s wndw VUndefined = (es', r)"
    by (cases "testParser fenv (field test ''inherit'') s wndw VUndefined")
  have "each_test fenv docFragment wndw i test = ([Group (field test ''scenario'') (es @ es')], r)"
    for i
    unfolding inheriting_leaf_run [OF assms(1-4)] assms(5) by (simp add: inner)
  then show ?thesis by (simp add: inner)
qed

theorem C6_inherit_delegation_witness:
  "getDomFragment sample_env inheriting_leaf (VStr ''D'') =
     ([Called 0 inheriting_leaf [VStr ''D'']], Ok (VNum 1))
   \<and> testParser sample_env (field inheriting_leaf ''inherit'') (VNum 1) (VStr ''W'') VUndefined =
     ([Test (VStr ''T'') (VObj [(''scenario'', VStr ''T'')]) (VNum 1) (VStr ''W'')], Ok ())
   \<and> each_test sample_env (VStr ''D'') (VStr ''W'') (VNum 7) inheriting_leaf =
     ([Group (VStr ''S'')
        [Called 0 inheriting_leaf [VStr ''D''],
         Test (VStr ''T'') (VObj [(''scenario'', VStr ''T'')]) (VNum 1) (VStr ''W'')]], Ok ())"
  using C6_inherit_delegation [of inheriting_leaf sample_env "VStr ''D''"
          "[Called 0 inheriting_leaf [VStr ''D'']]" "VNum 1" "VStr ''W''" "VNum 7"]
  by (simp add: sample_defs testParser.simps each_test.simps getDomFragment_def itter_def
        no_op_def)

text \<open>
  \<^bold>\<open>C7\<close> (non-array input), as the code has it. The claim is that the walker returns
  without an error whenever \<open>nodes\<close> is not an array. The code reads
  \<^verbatim>\<open>docFragment.document\<close> before it looks at \<open>nodes\<close>, so a scope that is
  \<^verbatim>\<open>null\<close> or \<^verbatim>\<open>undefined\<close> throws first.

  Counterexample: \<open>nodes\<close> the string \<^verbatim>\<open>'tests'\<close>, scope \<^verbatim>\<open>null\<close>.
\<close>

theorem C7_null_scope_counterexample:
  "\<not> is_array (VStr ''tests'')
   \<and> testParser sample_env (VStr ''tests'') VNull VUndefined VUndefined = ([], Threw VTypeError)"
  by (simp add: testParser.simps throw_def)

text \<open>
  \<^bold>\<open>C7\<close>, amended. When \<open>nodes\<close> is not an array and the scope is neither
  \<^verbatim>\<open>null\<close> nor \<^verbatim>\<open>undefined\<close>, the walker registers nothing, calls nothing and
  returns.
\<close>

theorem C7_non_array_no_op:
  assumes "\<not> is_array nodes" and "\<not> nullish scope"
  shows "testParser fenv nodes scope wndw index = ([], Ok ())"
  using assms by (cases nodes) (simp_all add: testParser.simps no_op_def)

theorem C7_non_array_no_op_witness:
  "\<not> is_array (VStr ''tests'') \<and> \<not> nullish (VStr ''D'')
   \<and> testParser sample_env (VStr ''tests'') (VStr ''D'') VUndefined VUndefined = ([], Ok ())"
  using C7_non_array_no_op [of "VStr ''tests''" "VStr ''D''" sample_env VUndefined VUndefined]
  by simp

text \<open>
  \<^bold>\<open>C8\<close>. When the earlier siblings \<open>pre\<close> went through and \<^verbatim>\<open>set\<close> of a fan-out
  group or leaf throws \<open>e\<close> on the current scope, the walk ends with \<open>e\<close> thrown; beyond
  what \<open>pre\<close> did, the only event is the call of \<^verbatim>\<open>set\<close>: no group for the node (in the
  group case \<^verbatim>\<open>set\<close> is called before \<^verbatim>\<open>describe\<close>), and nothing for the later
  siblings \<open>post\<close>.
\<close>

theorem C8_generator_failure:
  assumes "snd (testParser fenv (VArr pre) docFragment wndw index) = Ok ()"
    and "truthy (field test ''feature'') \<or> truthy (field test ''scenario'')"
    and "field test ''set'' = VFun sf"
    and "fenv sf test [current_scope docFragment wndw] = Threw e"
  shows "testParser fenv (VArr (pre @ test # post)) docFragment wndw index =
           (fst (testParser fenv (VArr pre) docFragment wndw index)
              @ [Called sf test [current_scope docFragment wndw]], Threw e)"
  using testParser_stops [OF assms(1) set_throws [where fenv = fenv, OF assms(2,3,4)]] .

theorem C8_generator_failure_witness:
  "testParser sample_env (VArr [plain_leaf]) (VStr ''D'') VNull VUndefined =
     ([Test (VStr ''P'') plain_leaf (VStr ''D'') VNull], Ok ())
   \<and> testParser sample_env (VArr [plain_leaf, failing_group, plain_leaf]) (VStr ''D'') VNull
       VUndefined =
     ([Test (VStr ''P'') plain_leaf (VStr ''D'') VNull,
       Called 7 failing_group [VStr ''D'']], Threw (VStr ''boom''))
   \<and> testParser sample_env (VArr [plain_leaf, failing_leaf, plain_leaf]) (VStr ''D'') VNull
       VUndefined =
     ([Test (VStr ''P'') plain_leaf (VStr ''D'') VNull,
       Called 7 failing_leaf [VStr ''D'']], Threw (VStr ''boom''))"
  using C8_generator_failure [of sample_env "[plain_leaf]" "VStr ''D''" VNull VUndefined
          failing_group 7 "VStr ''boom''" "[plain_leaf]"]
        C8_generator_failure [of sample_env "[plain_leaf]" "VStr ''D''" VNull VUndefined
          failing_leaf 7 "VStr ''boom''" "[plain_leaf]"]
  by (simp add: sample_defs testParser.simps [of _ "VArr [_]"] each_test.simps
        getDomFragment_def itter_def no_op_def current_scope_def)

text \<open>
  \<^bold>\<open>C9\<close>. The walker is not total: a scope that is \<^verbatim>\<open>null\<close> or \<^verbatim>\<open>undefined\<close>
  throws a \<^verbatim>\<open>TypeError\<close> for any \<open>nodes\<close>, an array or not; an entry of the array that
  is \<^verbatim>\<open>null\<close> or \<^verbatim>\<open>undefined\<close> throws a \<^verbatim>\<open>TypeError\<close> when the walk reaches it;
  an entry that is neither, and has no truthy \<^verbatim>\<open>feature\<close> and no truthy
  \<^verbatim>\<open>scenario\<close>, is skipped without a trace.
\<close>

theorem C9_not_total:
  "(nullish scope \<longrightarrow> testParser fenv nodes scope wndw index = ([], Threw VTypeError))
   \<and> (nullish entry \<and> snd (testParser fenv (VArr pre) scope wndw index) = Ok () \<longrightarrow>
        testParser fenv (VArr (pre @ entry # post)) scope wndw index =
          (fst (testParser fenv (VArr pre) scope wndw index), Threw VTypeError))
   \<and> (\<not> nullish entry \<and> \<not> truthy (field entry ''feature'')
        \<and> \<not> truthy (field entry ''scenario'') \<longrightarrow>
        each_test fenv scope wndw index entry = ([], Ok ()))"
proof (intro conjI impI)
  assume "nullish scope"
  then show "testParser fenv nodes scope wndw index = ([], Threw VTypeError)"
    by (simp add: testParser.simps throw_def)
next
  assume a: "nullish entry \<and> snd (testParser fenv (VArr pre) scope wndw index) = Ok ()"
  then have "each_test fenv (current_scope scope wndw) (current_context scope wndw) index entry
               = ([], Threw VTypeError)"
    by (simp add: each_test.simps throw_def)
  from testParser_stops [OF conjunct2 [OF a] this]
  show "testParser fenv (VArr (pre @ entry # post)) scope wndw index =
          (fst (testParser fenv (VArr pre) scope wndw index), Threw VTypeError)"
    by simp
next
  assume "\<not> nullish entry \<and> \<not> truthy (field entry ''feature'')
            \<and> \<not> truthy (field entry ''scenario'')"
  then show "each_test fenv scope wndw index entry = ([], Ok ())"
    by (simp add: each_test.simps no_op_def)
qed

theorem C9_not_total_witness:
  "testParser sample_env (VStr ''tests'') VNull VUndefined VUndefined = ([], Threw VTypeError)
   \<and> testParser sample_env (VStr ''tests'') VUndefined VUndefined VUndefined =
       ([], Threw VTypeError)
   \<and> testParser sample_env (VArr [plain_leaf, VNull, plain_leaf]) (VStr ''D'') VNull VUndefined =
       ([Test (VStr ''P'') plain_leaf (VStr ''D'') VNull], Threw VTypeError)
   \<and> testParser sample_env (VArr [plain_leaf, VUndefined, plain_leaf]) (VStr ''D'') VNull
       VUndefined =
       ([Test (VStr ''P'') plain_leaf (VStr ''D'') VNull], Threw VTypeError)
   \<and> each_test sample_env (VStr ''D'') VNull VUndefined (VObj [(''name'', VStr ''x'')]) =
       ([], Ok ())"
  using C9_not_total [of VNull sample_env "VStr ''tests''" VUndefined VUndefined]
        C9_not_total [of VUndefined sample_env "VStr ''tests''" VUndefined VUndefined]
        C9_not_total [of "VStr ''D''" sample_env _ VNull VUndefined VNull "[plain_leaf]"
          "[plain_leaf]"]
        C9_not_total [of "VStr ''D''" sample_env _ VNull VUndefined VUndefined "[plain_leaf]"
          "[plain_leaf]"]
        C9_not_total [of "VStr ''D''" sample_env _ VNull VUndefined
          "VObj [(''name'', VStr ''x'')]"]
  by (simp add: sample_defs testParser.simps [of _ "VArr [_]"] each_test.simps
        getDomFragment_def itter_def no_op_def)

text \<open>
  \<^bold>\<open>C10\<close>. The body of a registered test calls \<^verbatim>\<open>.then\<close> on what \<^verbatim>\<open>getActual\<close>
  returns. When that is not a thenable (\<^verbatim>\<open>undefined\<close> included), the body throws a
  \<^verbatim>\<open>TypeError\<close> after the call of \<^verbatim>\<open>getActual\<close>, \<^verbatim>\<open>comparison\<close> is never called, and
  the test fails.
\<close>

theorem C10_getActual_not_thenable:
  assumes "\<not> nullish test"
    and "field test ''getActual'' = VFun ga"
    and "fenv ga test [scope, context] = Ok actual"
    and "\<not> thenable actual"
  shows "test_body fenv test scope context = ([Called ga test [scope, context]], Threw VTypeError)
       \<and> test_fails (test_body fenv test scope context)"
proof -
  have "call_then fenv actual f = ([], Threw VTypeError)" for f
  proof (cases actual)
    case (VObj kvs)
    then show ?thesis using assms(4) by (cases "lookup kvs ''then''") (simp_all add: throw_def)
  qed (use assms(4) in \<open>simp_all add: throw_def\<close>)
  then show ?thesis using assms(1-3) by (simp add: test_body_def)
qed

theorem C10_getActual_not_thenable_witness:
  "sample_env 5 (acting_leaf 5 6) [VStr ''D'', VStr ''W''] = Ok (VNum 1)
   \<and> sample_env 6 VUndefined [VNum 1] = Ok VUndefined
   \<and> test_body sample_env (acting_leaf 5 6) (VStr ''D'') (VStr ''W'') =
       ([Called 5 (acting_leaf 5 6) [VStr ''D'', VStr ''W'']], Threw VTypeError)
   \<and> test_fails (test_body sample_env (acting_leaf 5 6) (VStr ''D'') (VStr ''W''))
   \<and> test_body sample_env (acting_leaf 6 6) (VStr ''D'') (VStr ''W'') =
       ([Called 6 (acting_leaf 6 6) [VStr ''D'', VStr ''W'']], Threw VTypeError)"
  using C10_getActual_not_thenable [of "acting_leaf 5 6" 5 sample_env "VStr ''D''" "VStr ''W''"
          "VNum 1"]
        C10_getActual_not_thenable [of "acting_leaf 6 6" 6 sample_env "VStr ''D''" "VStr ''W''"
          VUndefined]
  by (simp add: sample_defs)

end
